theory Spec2Isabelle
  imports Complex_Main
begin

section \<open>JavaScript values used by the benchmark engine\<close>

text \<open>
  The engine (class BenchmarkEngine) computes with JavaScript numbers. They are modelled
  as real numbers: latencies, token rates and percentages are idealised doubles, and a
  value that may be \<open>null\<close>, \<open>undefined\<close> or \<open>NaN\<close> is a \<open>real option\<close> with
  \<open>None\<close> for all three (each of them is falsy and none of them is a usable number).
\<close>

text \<open>\<open>v || d\<close> on a number that may be missing: \<open>null\<close>, \<open>undefined\<close> and \<open>0\<close> are falsy.\<close>

definition or_default :: "'a::zero option \<Rightarrow> 'a \<Rightarrow> 'a" where
  "or_default v d = (case v of None \<Rightarrow> d | Some x \<Rightarrow> if x = 0 then d else x)"

text \<open>\<open>v || null\<close>: a falsy number (\<open>0\<close>, \<open>NaN\<close>, \<open>null\<close>, \<open>undefined\<close>) becomes \<open>null\<close>.\<close>

definition or_null :: "real option \<Rightarrow> real option" where
  "or_null v = (case v of None \<Rightarrow> None | Some x \<Rightarrow> if x = 0 then None else Some x)"

text \<open>Truthiness of \<open>metrics.error\<close>, which is \<open>null\<close> or a string: the empty string is falsy.\<close>

definition truthy_str :: "string option \<Rightarrow> bool" where
  "truthy_str e = (case e of None \<Rightarrow> False | Some s \<Rightarrow> s \<noteq> [])"

text \<open>\<open>a / b\<close> on numbers: \<open>0 / 0\<close> is \<open>NaN\<close> (\<open>None\<close>); the engine never divides a
  non-zero number by zero where this is used, which would be an infinity.\<close>

definition js_div :: "real \<Rightarrow> real \<Rightarrow> real option" where
  "js_div a b = (if b = 0 then None else Some (a / b))"

text \<open>
  \<open>Math.round\<close>: the nearest integer, halves rounded up. The argument is taken
  exactly; in doubles a product that is exactly a half can fall just below it and round
  down, which changes neither the order of the results nor their bounds.
\<close>

definition js_round :: "real \<Rightarrow> int" where
  "js_round x = \<lfloor>x + 1 / 2\<rfloor>"

text \<open>\<open>array[i]\<close> for an integer \<open>i\<close>: \<open>undefined\<close> outside the array.\<close>

definition js_index :: "real list \<Rightarrow> int \<Rightarrow> real option" where
  "js_index xs i = (if 0 \<le> i \<and> i < int (length xs) then Some (xs ! nat i) else None)"

text \<open>\<open>array.reduce((sum, t) => sum + t, 0)\<close>.\<close>

definition reduce_sum :: "'a::monoid_add list \<Rightarrow> 'a" where
  "reduce_sum xs = foldl (\<lambda>sum t. sum + t) 0 xs"

section \<open>calculatePercentile\<close>

definition calculatePercentile :: "real list \<Rightarrow> real \<Rightarrow> real option" where
  "calculatePercentile sortedArray percentile =
     (if length sortedArray = 0 then Some 0
      else let index = \<lceil>(percentile / 100) * real (length sortedArray)\<rceil> - 1
           in js_index sortedArray (max 0 index))"

section \<open>runSingleInference\<close>

text \<open>LoadedModelInfo as the orchestrator caches it, a scenario and the run configuration.\<close>

record model_info =
  mi_id :: string
  mi_alias :: string

record scenario =
  sc_name :: string
  sc_prompt :: string
  sc_max_tokens :: "nat option"

record config =
  cfg_iterations :: nat
  cfg_timeout :: "nat option"
  cfg_temperature :: "real option"
  cfg_streaming :: bool

text \<open>The argument of \<open>client.chat.completions.create\<close>.\<close>

record request =
  req_model :: string
  req_content :: string
  req_max_tokens :: nat
  req_temperature :: real
  req_stream :: bool

text \<open>
  What the OpenAI client does with a request is outside the engine. A call either resolves
  or rejects with a message. A stream yields chunks, each with or without content and read
  at some \<open>Date.now()\<close>, and then ends or throws; a completion carries
  \<open>usage?.completion_tokens\<close>.
\<close>

datatype 'a outcome = Resolves 'a | Rejects string

record chunk =
  ch_content :: bool
  ch_time :: real

datatype stream_end = EndOfStream | StreamThrows string

record client =
  create_stream :: "request \<Rightarrow> (chunk list \<times> stream_end) outcome"
  create_completion :: "request \<Rightarrow> nat option outcome"

text \<open>
  The surroundings of one call of runSingleInference: the client, the two readings of
  \<open>performance.now()\<close>, the reading of \<open>Date.now()\<close> before the request, and whether the
  \<open>setTimeout\<close> callback (which aborts the request and sets \<open>metrics.timeout\<close>) has run
  by the time the metrics are read.
\<close>

record inference_env =
  env_client :: client
  env_perf_start :: real
  env_perf_end :: real
  env_date_start :: real
  env_timer_fired :: bool

record metrics =
  m_startTime :: real
  m_endTime :: real
  m_ttft :: "real option"
  m_tokens :: nat
  m_interTokenDelays :: "real list"
  m_error :: "string option"
  m_timeout :: bool

text \<open>The body of the \<open>for await\<close> loop over the stream.\<close>

record stream_state =
  firstTokenTime :: "real option"
  lastTokenTime :: "real option"
  st_ttft :: "real option"
  st_tokens :: nat
  st_interTokenDelays :: "real list"

definition read_chunk :: "real \<Rightarrow> stream_state \<Rightarrow> chunk \<Rightarrow> stream_state" where
  "read_chunk startTime st c =
     (if ch_content c then
        (let currentTokenTime = ch_time c;
             st' = (if or_null (firstTokenTime st) = None
                    then st\<lparr>firstTokenTime := Some currentTokenTime,
                            st_ttft := Some (currentTokenTime - startTime),
                            lastTokenTime := Some currentTokenTime\<rparr>
                    else st\<lparr>st_interTokenDelays := st_interTokenDelays st @
                                [currentTokenTime - or_default (lastTokenTime st) 0],
                            lastTokenTime := Some currentTokenTime\<rparr>)
         in st'\<lparr>st_tokens := st_tokens st' + 1\<rparr>)
      else st)"

definition build_request :: "model_info \<Rightarrow> scenario \<Rightarrow> config \<Rightarrow> request" where
  "build_request modelInfo scenario config =
     (let modelName = mi_id modelInfo
      in \<lparr>req_model = modelName,
          req_content = sc_prompt scenario,
          req_max_tokens = or_default (sc_max_tokens scenario) 100,
          req_temperature = or_default (cfg_temperature config) (7 / 10),
          req_stream = cfg_streaming config\<rparr>)"

text \<open>
  A call \<open>client.chat.completions.create(request, ...)\<close>, with and without
  \<open>stream: true\<close>: what the client answers, together with the request the client was
  given.
\<close>

definition create_streaming ::
  "client \<Rightarrow> request \<Rightarrow> (chunk list \<times> stream_end) outcome \<times> request" where
  "create_streaming c req = (create_stream c req, req)"

definition create_plain :: "client \<Rightarrow> request \<Rightarrow> nat option outcome \<times> request" where
  "create_plain c req = (create_completion c req, req)"

text \<open>
  runSingleInference returns the metrics; the model also returns the request that the
  client received.
\<close>

definition runSingleInference ::
  "inference_env \<Rightarrow> model_info \<Rightarrow> scenario \<Rightarrow> config \<Rightarrow> metrics \<times> request" where
  "runSingleInference env modelInfo scenario config =
     (let metrics = \<lparr>m_startTime = env_perf_start env, m_endTime = env_perf_end env,
                     m_ttft = None, m_tokens = 0, m_interTokenDelays = [],
                     m_error = None, m_timeout = env_timer_fired env\<rparr>;
          req = build_request modelInfo scenario config
      in if cfg_streaming config then
           (case create_streaming (env_client env) req of
              (Rejects msg, received) \<Rightarrow> (metrics\<lparr>m_error := Some msg\<rparr>, received)
            | (Resolves (chunks, fin), received) \<Rightarrow>
                (let st = foldl (read_chunk (env_date_start env))
                            \<lparr>firstTokenTime = None, lastTokenTime = None, st_ttft = None,
                             st_tokens = 0, st_interTokenDelays = []\<rparr> chunks;
                     metrics' = metrics\<lparr>m_ttft := st_ttft st, m_tokens := st_tokens st,
                                       m_interTokenDelays := st_interTokenDelays st\<rparr>
                 in case fin of
                      EndOfStream \<Rightarrow> (metrics', received)
                    | StreamThrows msg \<Rightarrow> (metrics'\<lparr>m_error := Some msg\<rparr>, received)))
         else
           (case create_plain (env_client env) req of
              (Rejects msg, received) \<Rightarrow> (metrics\<lparr>m_error := Some msg\<rparr>, received)
            | (Resolves usage, received) \<Rightarrow>
                (metrics\<lparr>m_tokens := or_default usage 0, m_ttft := None\<rparr>, received)))"

section \<open>runScenario\<close>

record resources =
  cpu :: "real option"
  ram :: "real option"
  gpu :: "real option"

record snapshot =
  before :: resources
  after :: resources

record results =
  res_iterations :: "metrics list"
  res_latencies :: "real list"
  res_ttfts :: "real list"
  res_tokenCounts :: "nat list"
  res_allInterTokenDelays :: "real list"
  res_errors :: nat
  res_timeouts :: nat
  res_resourceSnapshots :: "snapshot list"

record aggregated =
  tps :: real
  ttft :: "real option"
  tpot :: "real option"
  gen_tps :: "real option"
  latency_p50 :: "real option"
  latency_p95 :: "real option"
  latency_p99 :: "real option"
  error_rate :: "real option"
  timeout_rate :: "real option"
  cpu_avg :: "real option"
  ram_avg :: "real option"
  gpu_avg :: "real option"
  total_tokens :: nat
  total_iterations :: nat
  successful_iterations :: int

text \<open>One pass of the iteration loop, after the inference and the two resource samples.\<close>

definition record_iteration :: "results \<Rightarrow> metrics \<Rightarrow> resources \<Rightarrow> resources \<Rightarrow> results" where
  "record_iteration results metrics resourcesBefore resourcesAfter =
     (let latency = m_endTime metrics - m_startTime metrics;
          r1 = results\<lparr>res_iterations := res_iterations results @ [metrics]\<rparr>;
          r2 = (if \<not> truthy_str (m_error metrics) \<and> \<not> m_timeout metrics
                then r1\<lparr>res_latencies := res_latencies r1 @ [latency],
                        res_ttfts := (case m_ttft metrics of
                                        None \<Rightarrow> res_ttfts r1
                                      | Some t \<Rightarrow> res_ttfts r1 @ [t]),
                        res_tokenCounts := res_tokenCounts r1 @ [m_tokens metrics],
                        res_allInterTokenDelays :=
                          res_allInterTokenDelays r1 @ m_interTokenDelays metrics\<rparr>
                else r1);
          r3 = (if truthy_str (m_error metrics) then r2\<lparr>res_errors := res_errors r2 + 1\<rparr> else r2);
          r4 = (if m_timeout metrics then r3\<lparr>res_timeouts := res_timeouts r3 + 1\<rparr> else r3)
      in r4\<lparr>res_resourceSnapshots := res_resourceSnapshots r4 @
               [\<lparr>before = resourcesBefore, after = resourcesAfter\<rparr>]\<rparr>)"

text \<open>The surroundings of one iteration: the inference and the samples before and after it.\<close>

record iteration_env =
  it_inference :: inference_env
  it_before :: resources
  it_after :: resources

definition empty_results :: results where
  "empty_results = \<lparr>res_iterations = [], res_latencies = [], res_ttfts = [],
     res_tokenCounts = [], res_allInterTokenDelays = [], res_errors = 0, res_timeouts = 0,
     res_resourceSnapshots = []\<rparr>"

text \<open>The iteration loop: the results and the requests the client received, in order.\<close>

fun run_iterations ::
  "(nat \<Rightarrow> iteration_env) \<Rightarrow> model_info \<Rightarrow> scenario \<Rightarrow> config \<Rightarrow> nat list \<Rightarrow>
   results \<times> request list \<Rightarrow> results \<times> request list" where
  "run_iterations env modelInfo scenario config [] acc = acc"
| "run_iterations env modelInfo scenario config (i # is) (results, sent) =
     (let (metrics, req) = runSingleInference (it_inference (env i)) modelInfo scenario config
      in run_iterations env modelInfo scenario config is
           (record_iteration results metrics (it_before (env i)) (it_after (env i)),
            sent @ [req]))"

text \<open>The mean of the non-null samples of one resource, over a given denominator.\<close>

definition avg_over :: "(resources \<Rightarrow> real option) \<Rightarrow> snapshot list \<Rightarrow> nat \<Rightarrow> real option" where
  "avg_over field snapshots n =
     or_null (js_div (reduce_sum (List.map_filter (\<lambda>r. field (after r)) snapshots)) (real n))"

definition aggregate :: "config \<Rightarrow> results \<Rightarrow> aggregated" where
  "aggregate config results =
     (let sortedLatencies = sort (res_latencies results);
          sortedTtfts = sort (res_ttfts results);
          totalTokens = reduce_sum (res_tokenCounts results);
          totalTime = reduce_sum (res_latencies results) / 1000;
          tps = (if totalTime > 0 then real totalTokens / totalTime else 0);
          tpot = (if length (res_allInterTokenDelays results) > 0
                  then Some (reduce_sum (res_allInterTokenDelays results) /
                             real (length (res_allInterTokenDelays results)))
                  else None);
          gen_tps = (case tpot of None \<Rightarrow> None
                     | Some t \<Rightarrow> if t > 0 then Some (1000 / t) else None);
          avgCpu = avg_over cpu (res_resourceSnapshots results)
                     (length (res_resourceSnapshots results));
          avgRam = avg_over ram (res_resourceSnapshots results)
                     (length (res_resourceSnapshots results));
          avgGpu = avg_over gpu (res_resourceSnapshots results)
                     (length (List.map_filter (\<lambda>r. gpu (after r)) (res_resourceSnapshots results)))
      in \<lparr>tps = tps,
          ttft = (if length sortedTtfts > 0
                  then js_index sortedTtfts (int (length sortedTtfts div 2)) else None),
          tpot = tpot,
          gen_tps = gen_tps,
          latency_p50 = calculatePercentile sortedLatencies 50,
          latency_p95 = calculatePercentile sortedLatencies 95,
          latency_p99 = calculatePercentile sortedLatencies 99,
          error_rate = map_option (\<lambda>q. q * 100)
                         (js_div (real (res_errors results)) (real (cfg_iterations config))),
          timeout_rate = map_option (\<lambda>q. q * 100)
                           (js_div (real (res_timeouts results)) (real (cfg_iterations config))),
          cpu_avg = avgCpu,
          ram_avg = avgRam,
          gpu_avg = avgGpu,
          total_tokens = totalTokens,
          total_iterations = cfg_iterations config,
          successful_iterations =
            int (cfg_iterations config) - int (res_errors results) - int (res_timeouts results)\<rparr>)"

text \<open>
  runScenario looks the model up in storage and the loaded model in the orchestrator's
  cache; both lookups are parameters. It throws when either is missing, and otherwise
  returns the aggregate and the raw results; the model also returns the requests that the
  client received.
\<close>

record model =
  md_id :: string
  md_alias :: string
  md_model_id :: string

definition runScenario ::
  "(string \<Rightarrow> model option) \<Rightarrow> (string \<Rightarrow> model_info option) \<Rightarrow> (nat \<Rightarrow> iteration_env) \<Rightarrow>
   string \<Rightarrow> scenario \<Rightarrow> config \<Rightarrow> string + (aggregated \<times> results \<times> request list)" where
  "runScenario getModel getLoadedModelInfo env modelId scenario config =
     (case getModel modelId of
        None \<Rightarrow> Inl (''Model '' @ modelId @ '' not found in storage.'')
      | Some model \<Rightarrow>
          (case getLoadedModelInfo modelId of
             None \<Rightarrow> Inl (''Model '' @ modelId @
                          '' not loaded in Foundry Local. Please load the model first.'')
           | Some modelInfo \<Rightarrow>
               (let (results, sent) =
                      run_iterations env modelInfo scenario config
                        [0..<cfg_iterations config] (empty_results, [])
                in Inr (aggregate config results, results, sent))))"

section \<open>runBenchmark and the status registry\<close>

text \<open>
  The coordinator publishes the state of a run in the map \<open>runningBenchmarks\<close>. What the
  registry shows only depends on how the calls around it end, so those calls are given by
  their outcome: saving the run record, preparing the \<open>i\<close>-th model (\<open>storage.getModel\<close>
  followed by \<open>ensureModelReady\<close>), the \<open>try\<close>/\<open>catch\<close> around the \<open>j\<close>-th scenario of
  the \<open>i\<close>-th model, and the two updates of the run record. The progress callback and the
  loggers are taken not to throw.
\<close>

datatype run_status = Running | Completed | Failed

record registry_entry =
  reg_id :: string
  reg_status :: run_status
  reg_progress :: int
  reg_error :: "string option"

datatype prepared = NotInStorage | NotReady | Ready

datatype attempt = TryCompleted | CaughtAndLogged | CatchThrew string

record run_env =
  env_saveBenchmarkRun :: "unit outcome"
  env_prepare :: "nat \<Rightarrow> prepared outcome"
  env_attempt :: "nat \<Rightarrow> nat \<Rightarrow> attempt"
  env_completeRun :: "unit outcome"
  env_failRun :: "unit outcome"

text \<open>
  The coordinator's state: the registry and the task counter. \<open>published\<close> and \<open>reported\<close>
  record, in order, every entry set for the run and every progress value passed to the
  progress callback.
\<close>

record coordinator =
  runningBenchmarks :: "string \<rightharpoonup> registry_entry"
  completedTasks :: nat
  published :: "registry_entry list"
  reported :: "int list"

definition registry_set :: "string \<Rightarrow> registry_entry \<Rightarrow> coordinator \<Rightarrow> coordinator" where
  "registry_set runId entry st =
     st\<lparr>runningBenchmarks := (runningBenchmarks st)(runId \<mapsto> entry),
        published := published st @ [entry]\<rparr>"

definition getBenchmarkStatus :: "coordinator \<Rightarrow> string \<Rightarrow> registry_entry option" where
  "getBenchmarkStatus st runId = runningBenchmarks st runId"

definition task_progress :: "nat \<Rightarrow> nat \<Rightarrow> int" where
  "task_progress totalTasks completed =
     (if totalTasks > 0 then js_round ((real completed / real totalTasks) * 100) else 0)"

definition updateProgress :: "bool \<Rightarrow> nat \<Rightarrow> string \<Rightarrow> coordinator \<Rightarrow> coordinator" where
  "updateProgress progressCallback totalTasks runId st =
     (let progress = task_progress totalTasks (completedTasks st);
          st' = registry_set runId
                  \<lparr>reg_id = runId, reg_status = Running, reg_progress = progress,
                   reg_error = None\<rparr> st
      in if progressCallback then st'\<lparr>reported := reported st' @ [progress]\<rparr> else st')"

text \<open>
  The loop over the scenarios of model \<open>i\<close>. The \<open>finally\<close> block counts the task and
  publishes the progress whatever happened; an exception thrown by the \<open>catch\<close> block
  leaves the loop after it. The result is the state and the exception, if any.
\<close>

fun run_scenarios ::
  "run_env \<Rightarrow> bool \<Rightarrow> nat \<Rightarrow> string \<Rightarrow> nat \<Rightarrow> nat list \<Rightarrow> coordinator \<Rightarrow>
   coordinator \<times> string option" where
  "run_scenarios env cb totalTasks runId i [] st = (st, None)"
| "run_scenarios env cb totalTasks runId i (j # js) st =
     (let st' = updateProgress cb totalTasks runId
                  (st\<lparr>completedTasks := completedTasks st + 1\<rparr>)
      in case env_attempt env i j of
           CatchThrew msg \<Rightarrow> (st', Some msg)
         | TryCompleted \<Rightarrow> run_scenarios env cb totalTasks runId i js st'
         | CaughtAndLogged \<Rightarrow> run_scenarios env cb totalTasks runId i js st')"

text \<open>The loop over the models; \<open>suite.scenarios\<close> may be missing, and iterating it then throws.\<close>

fun run_models ::
  "run_env \<Rightarrow> bool \<Rightarrow> nat \<Rightarrow> string \<Rightarrow> nat option \<Rightarrow> nat list \<Rightarrow> coordinator \<Rightarrow>
   coordinator \<times> string option" where
  "run_models env cb totalTasks runId scenarios [] st = (st, None)"
| "run_models env cb totalTasks runId scenarios (i # is) st =
     (case env_prepare env i of
        Rejects msg \<Rightarrow> (st, Some msg)
      | Resolves NotInStorage \<Rightarrow> run_models env cb totalTasks runId scenarios is st
      | Resolves NotReady \<Rightarrow> run_models env cb totalTasks runId scenarios is st
      | Resolves Ready \<Rightarrow>
          (case scenarios of
             None \<Rightarrow> (st, Some ''suite.scenarios is not iterable'')
           | Some n \<Rightarrow>
               (case run_scenarios env cb totalTasks runId i [0..<n] st of
                  (st', Some msg) \<Rightarrow> (st', Some msg)
                | (st', None) \<Rightarrow> run_models env cb totalTasks runId scenarios is st')))"

text \<open>
  runBenchmark for a run of \<open>models\<close> model ids over a suite with \<open>scenarios\<close> scenarios
  (\<open>None\<close> when the suite has no \<open>scenarios\<close> field), under the id \<open>runId\<close>, from the state
  of the registry \<open>registry\<close>. The result is the final state and the exception the task
  ends with, if any.
\<close>

definition runBenchmark ::
  "run_env \<Rightarrow> bool \<Rightarrow> nat \<Rightarrow> nat option \<Rightarrow> string \<Rightarrow> (string \<rightharpoonup> registry_entry) \<Rightarrow>
   coordinator \<times> string option" where
  "runBenchmark env cb models scenarios runId registry =
     (let st0 = registry_set runId
                  \<lparr>reg_id = runId, reg_status = Running, reg_progress = 0, reg_error = None\<rparr>
                  \<lparr>runningBenchmarks = registry, completedTasks = 0, published = [],
                   reported = []\<rparr>;
          totalTasks = models * or_default scenarios 0;
          (st1, thrown) =
            (case env_saveBenchmarkRun env of
               Rejects msg \<Rightarrow> (st0, Some msg)
             | Resolves _ \<Rightarrow>
                 (case run_models env cb totalTasks runId scenarios [0..<models] st0 of
                    (st, Some msg) \<Rightarrow> (st, Some msg)
                  | (st, None) \<Rightarrow>
                      (case env_completeRun env of
                         Rejects msg \<Rightarrow> (st, Some msg)
                       | Resolves _ \<Rightarrow>
                           (registry_set runId
                              \<lparr>reg_id = runId, reg_status = Completed, reg_progress = 100,
                               reg_error = None\<rparr> st, None))))
      in case thrown of
           None \<Rightarrow> (st1, None)
         | Some msg \<Rightarrow>
             (case env_failRun env of
                Rejects msg' \<Rightarrow> (st1, Some msg')
              | Resolves _ \<Rightarrow>
                  (registry_set runId
                     \<lparr>reg_id = runId, reg_status = Failed, reg_progress = 0,
                      reg_error = Some msg\<rparr> st1, Some msg)))"

section \<open>Storage of results and the export routes\<close>

text \<open>
  A benchmark run as stored, and a result as \<open>getBenchmarkResults\<close> returns it: a row of
  the table \<open>benchmark_results\<close>, or the object kept by the JSON store (which also keeps
  the three counters of the aggregate). Every numeric column may be \<open>NULL\<close>.
\<close>

record run =
  run_id :: string
  run_suite_name :: string
  run_model_ids :: "string list"
  run_status :: string
  run_started_at :: nat
  run_completed_at :: "nat option"

record resultRecord =
  r_id :: string
  r_run_id :: string
  r_model_id :: string
  r_scenario :: string
  r_aggregated :: aggregated
  r_raw_data :: "results option"

record stored_result =
  s_id :: string
  s_run_id :: string
  s_model_id :: string
  s_scenario :: string
  s_tps :: "real option"
  s_ttft :: "real option"
  s_tpot :: "real option"
  s_gen_tps :: "real option"
  s_latency_p50 :: "real option"
  s_latency_p95 :: "real option"
  s_latency_p99 :: "real option"
  s_error_rate :: "real option"
  s_timeout_rate :: "real option"
  s_cpu_avg :: "real option"
  s_ram_avg :: "real option"
  s_gpu_avg :: "real option"
  s_total_tokens :: "nat option"
  s_total_iterations :: "nat option"
  s_successful_iterations :: "int option"
  s_raw_data :: "results option"
  s_created_at :: nat

text \<open>
  The store is either the JSON object \<open>data\<close> or the SQLite database \<open>db\<close>; \<open>useJson\<close>
  says which. Tables are lists of rows in insertion order. The database enforces the
  constraints of its schema: \<open>id\<close> is the primary key of \<open>benchmark_runs\<close> and of
  \<open>benchmark_results\<close>, and a result references a row of \<open>benchmark_runs\<close> by
  \<open>run_id\<close> and a row of \<open>models\<close> by \<open>model_id\<close>. An insert that breaks one of them
  throws, and nothing is stored. The JSON object has no constraints.
\<close>

record storage =
  useJson :: bool
  data_models :: "string \<rightharpoonup> model"
  data_benchmark_runs :: "string \<rightharpoonup> run"
  data_benchmark_results :: "string \<rightharpoonup> stored_result list"
  db_models :: "model list"
  db_benchmark_runs :: "run list"
  db_benchmark_results :: "stored_result list"

definition saveBenchmarkRun :: "storage \<Rightarrow> run \<Rightarrow> string + storage" where
  "saveBenchmarkRun st r =
     (if useJson st
      then Inr (st\<lparr>data_benchmark_runs := (data_benchmark_runs st)(run_id r \<mapsto> r)\<rparr>)
      else if find (\<lambda>x. run_id x = run_id r) (db_benchmark_runs st) \<noteq> None
      then Inl ''UNIQUE constraint failed: benchmark_runs.id''
      else Inr (st\<lparr>db_benchmark_runs := db_benchmark_runs st @ [r]\<rparr>))"

definition getBenchmarkRun :: "storage \<Rightarrow> string \<Rightarrow> run option" where
  "getBenchmarkRun st ident =
     (if useJson st then data_benchmark_runs st ident
      else find (\<lambda>r. run_id r = ident) (db_benchmark_runs st))"

text \<open>
  saveBenchmarkResult at the time \<open>now\<close>. The JSON branch keeps the fields of the result
  as they are; the SQLite branch binds each numeric column as \<open>result.field || null\<close>
  and inserts the row, which throws when the id is taken or when the run or the model of
  the result is not in the database.
\<close>

definition saveBenchmarkResult :: "storage \<Rightarrow> nat \<Rightarrow> resultRecord \<Rightarrow> string + storage" where
  "saveBenchmarkResult st now result =
     (let a = r_aggregated result
      in if useJson st then
           (let kept = \<lparr>s_id = r_id result, s_run_id = r_run_id result,
                        s_model_id = r_model_id result, s_scenario = r_scenario result,
                        s_tps = Some (tps a), s_ttft = ttft a, s_tpot = tpot a,
                        s_gen_tps = gen_tps a, s_latency_p50 = latency_p50 a,
                        s_latency_p95 = latency_p95 a, s_latency_p99 = latency_p99 a,
                        s_error_rate = error_rate a, s_timeout_rate = timeout_rate a,
                        s_cpu_avg = cpu_avg a, s_ram_avg = ram_avg a, s_gpu_avg = gpu_avg a,
                        s_total_tokens = Some (total_tokens a),
                        s_total_iterations = Some (total_iterations a),
                        s_successful_iterations = Some (successful_iterations a),
                        s_raw_data = r_raw_data result, s_created_at = now\<rparr>;
                earlier = (case data_benchmark_results st (r_run_id result) of
                             None \<Rightarrow> [] | Some rs \<Rightarrow> rs)
            in Inr (st\<lparr>data_benchmark_results :=
                         (data_benchmark_results st)(r_run_id result \<mapsto> earlier @ [kept])\<rparr>))
         else
           (let row = \<lparr>s_id = r_id result, s_run_id = r_run_id result,
                       s_model_id = r_model_id result, s_scenario = r_scenario result,
                       s_tps = or_null (Some (tps a)), s_ttft = or_null (ttft a),
                       s_tpot = or_null (tpot a), s_gen_tps = or_null (gen_tps a),
                       s_latency_p50 = or_null (latency_p50 a),
                       s_latency_p95 = or_null (latency_p95 a),
                       s_latency_p99 = or_null (latency_p99 a),
                       s_error_rate = or_null (error_rate a),
                       s_timeout_rate = or_null (timeout_rate a),
                       s_cpu_avg = or_null (cpu_avg a), s_ram_avg = or_null (ram_avg a),
                       s_gpu_avg = or_null (gpu_avg a),
                       s_total_tokens = None, s_total_iterations = None,
                       s_successful_iterations = None,
                       s_raw_data = r_raw_data result, s_created_at = now\<rparr>
            in if find (\<lambda>x. s_id x = r_id result) (db_benchmark_results st) \<noteq> None
               then Inl ''UNIQUE constraint failed: benchmark_results.id''
               else if find (\<lambda>x. run_id x = r_run_id result) (db_benchmark_runs st) = None \<or>
                       find (\<lambda>x. md_id x = r_model_id result) (db_models st) = None
               then Inl ''FOREIGN KEY constraint failed''
               else Inr (st\<lparr>db_benchmark_results := db_benchmark_results st @ [row]\<rparr>)))"

definition getBenchmarkResults :: "storage \<Rightarrow> string \<Rightarrow> stored_result list" where
  "getBenchmarkResults st runId =
     (if useJson st
      then (case data_benchmark_results st runId of None \<Rightarrow> [] | Some rs \<Rightarrow> rs)
      else filter (\<lambda>r. s_run_id r = runId) (db_benchmark_results st))"

record json_export =
  ex_run :: "run option"
  ex_results :: "stored_result list"
  ex_exported_at :: nat

definition exportToJSON :: "storage \<Rightarrow> nat \<Rightarrow> string \<Rightarrow> json_export" where
  "exportToJSON st now runId =
     (let r = getBenchmarkRun st runId;
          results = getBenchmarkResults st runId
      in \<lparr>ex_run = r, ex_results = results, ex_exported_at = now\<rparr>)"

text \<open>
  exportToCSV. The keys of a stored object and the value under a key are parameters: a
  value is \<open>null\<close>/\<open>undefined\<close>, a string, or anything else already turned into text.
\<close>

datatype cell = Absent | Text string | Other string

fun join :: "string \<Rightarrow> string list \<Rightarrow> string" where
  "join sep [] = []"
| "join sep [x] = x"
| "join sep (x # y # ys) = x @ sep @ join sep (y # ys)"

definition exportToCSV ::
  "(stored_result \<Rightarrow> string list) \<Rightarrow> (stored_result \<Rightarrow> string \<Rightarrow> cell) \<Rightarrow>
   storage \<Rightarrow> string \<Rightarrow> string" where
  "exportToCSV keys val st runId =
     (let results = getBenchmarkResults st runId
      in if length results = 0 then []
         else
           (let headers = filter (\<lambda>k. k \<noteq> ''raw_data'') (keys (hd results));
                rows = map (\<lambda>r. join '','' (map (\<lambda>h. case val r h of
                                                      Absent \<Rightarrow> []
                                                    | Text s \<Rightarrow>
                                                        if CHR '','' \<in> set s
                                                        then [CHR 0x22] @ s @ [CHR 0x22]
                                                        else s
                                                    | Other s \<Rightarrow> s) headers)) results
            in join [CHR 0x0A] (join '','' headers # rows)))"

text \<open>
  The two export routes: the status code and the body sent. The handlers answer
  \<open>res.json(data)\<close> and \<open>res.send(csv)\<close>, both with the default status 200; the calls
  into the store do not throw in this model, so the 500 branch is not reached.
\<close>

datatype 'a response = Response (status: nat) (body: 'a)

definition export_json_route :: "storage \<Rightarrow> nat \<Rightarrow> string \<Rightarrow> json_export response" where
  "export_json_route st now ident = Response 200 (exportToJSON st now ident)"

definition export_csv_route ::
  "(stored_result \<Rightarrow> string list) \<Rightarrow> (stored_result \<Rightarrow> string \<Rightarrow> cell) \<Rightarrow>
   storage \<Rightarrow> string \<Rightarrow> string response" where
  "export_csv_route keys val st ident = Response 200 (exportToCSV keys val st ident)"

section \<open>Invariants of the two loops\<close>

text \<open>
  What the iteration loop of runScenario keeps: the latencies, the token counts and the two
  counters are functions of the metrics recorded so far.
\<close>

definition counted :: "results \<Rightarrow> bool" where
  "counted r =
     (let ok = filter (\<lambda>m. \<not> truthy_str (m_error m) \<and> \<not> m_timeout m) (res_iterations r)
      in res_latencies r = map (\<lambda>m. m_endTime m - m_startTime m) ok \<and>
         res_tokenCounts r = map m_tokens ok \<and>
         res_errors r = length (filter (\<lambda>m. truthy_str (m_error m)) (res_iterations r)) \<and>
         res_timeouts r = length (filter m_timeout (res_iterations r)))"

text \<open>
  What the loops of runBenchmark keep: the registry holds the last entry published, every
  entry so far is a running one, and the progress published and reported so far is
  non-decreasing and at most the progress of the tasks counted.
\<close>

definition rising :: "nat \<Rightarrow> string \<Rightarrow> coordinator \<Rightarrow> bool" where
  "rising t runId st =
     (published st \<noteq> [] \<and> runningBenchmarks st runId = Some (last (published st)) \<and>
      sorted (map reg_progress (published st)) \<and> sorted (reported st) \<and>
      list_all (\<lambda>e. 0 \<le> reg_progress e \<and>
                     reg_progress e \<le> task_progress t (completedTasks st) \<and>
                     reg_status e = Running) (published st) \<and>
      list_all (\<lambda>p. p \<le> task_progress t (completedTasks st)) (reported st))"

section \<open>Concrete runs\<close>

text \<open>
  A registered model whose loaded form has its own identifier, a scenario, a client that
  answers and a client whose request is aborted (the message is the one the OpenAI client
  rejects with when its signal aborts).
\<close>

definition no_resources :: resources where
  "no_resources = \<lparr>cpu = None, ram = None, gpu = None\<rparr>"

definition sample_model :: model where
  "sample_model = \<lparr>md_id = ''m1'', md_alias = ''phi-3-mini'', md_model_id = ''phi-3-mini-4k''\<rparr>"

definition sample_info :: model_info where
  "sample_info = \<lparr>mi_id = ''Phi-3-mini-4k-instruct-generic-cpu:1'', mi_alias = ''phi-3-mini''\<rparr>"

definition sample_scenario :: scenario where
  "sample_scenario = \<lparr>sc_name = ''s1'', sc_prompt = ''Hi'', sc_max_tokens = Some 20\<rparr>"

definition answering_client :: client where
  "answering_client =
     \<lparr>create_stream = (\<lambda>req. Resolves ([\<lparr>ch_content = True, ch_time = 50\<rparr>,
                                          \<lparr>ch_content = True, ch_time = 70\<rparr>], EndOfStream)),
      create_completion = (\<lambda>req. Resolves (Some 42))\<rparr>"

definition aborting_client :: client where
  "aborting_client =
     \<lparr>create_stream = (\<lambda>req. Rejects ''Request was aborted.''),
      create_completion = (\<lambda>req. Rejects ''Request was aborted.'')\<rparr>"

text \<open>Iteration 0 is answered in one second; every later iteration fails after two.\<close>

definition sample_env :: "nat \<Rightarrow> iteration_env" where
  "sample_env i =
     (if i = 0
      then \<lparr>it_inference = \<lparr>env_client = answering_client, env_perf_start = 0,
                             env_perf_end = 1000, env_date_start = 0, env_timer_fired = False\<rparr>,
            it_before = no_resources,
            it_after = \<lparr>cpu = Some 30, ram = Some 40, gpu = None\<rparr>\<rparr>
      else \<lparr>it_inference = \<lparr>env_client = aborting_client, env_perf_start = 0,
                             env_perf_end = 2000, env_date_start = 0, env_timer_fired = False\<rparr>,
            it_before = no_resources, it_after = no_resources\<rparr>)"

definition sample_config :: config where
  "sample_config = \<lparr>cfg_iterations = 2, cfg_timeout = Some 30000, cfg_temperature = None,
                     cfg_streaming = False\<rparr>"

definition sample_run :: "string + (aggregated \<times> results \<times> request list)" where
  "sample_run = runScenario (\<lambda>i. Some sample_model) (\<lambda>i. Some sample_info) sample_env
                  ''m1'' sample_scenario sample_config"

text \<open>
  A scenario of one iteration with a timeout of 1 ms that the backend does not meet: the
  timer fires, the request is aborted, and the client rejects.
\<close>

definition timed_out_env :: "nat \<Rightarrow> iteration_env" where
  "timed_out_env i =
     \<lparr>it_inference = \<lparr>env_client = aborting_client, env_perf_start = 0, env_perf_end = 2,
                       env_date_start = 0, env_timer_fired = True\<rparr>,
      it_before = no_resources, it_after = no_resources\<rparr>"

definition timed_out_config :: config where
  "timed_out_config = \<lparr>cfg_iterations = 1, cfg_timeout = Some 1, cfg_temperature = None,
                        cfg_streaming = False\<rparr>"

definition timed_out_run :: "string + (aggregated \<times> results \<times> request list)" where
  "timed_out_run = runScenario (\<lambda>i. Some sample_model) (\<lambda>i. Some sample_info) timed_out_env
                     ''m1'' sample_scenario timed_out_config"

text \<open>
  The results of a scenario of one iteration that succeeds, and the record runBenchmark
  builds from them to save.
\<close>

definition clean_config :: config where
  "clean_config = \<lparr>cfg_iterations = 1, cfg_timeout = Some 30000, cfg_temperature = None,
                    cfg_streaming = False\<rparr>"

definition clean_results :: results where
  "clean_results =
     \<lparr>res_iterations = [\<lparr>m_startTime = 0, m_endTime = 1000, m_ttft = None, m_tokens = 42,
                          m_interTokenDelays = [], m_error = None, m_timeout = False\<rparr>],
      res_latencies = [1000], res_ttfts = [], res_tokenCounts = [42],
      res_allInterTokenDelays = [], res_errors = 0, res_timeouts = 0,
      res_resourceSnapshots = [\<lparr>before = no_resources,
                                 after = \<lparr>cpu = Some 30, ram = Some 40, gpu = None\<rparr>\<rparr>]\<rparr>"

definition clean_result :: resultRecord where
  "clean_result = \<lparr>r_id = ''result-1'', r_run_id = ''run-1'', r_model_id = ''m1'',
                    r_scenario = ''s1'', r_aggregated = aggregate clean_config clean_results,
                    r_raw_data = Some clean_results\<rparr>"

definition sqlite_store :: storage where
  "sqlite_store = \<lparr>useJson = False, data_models = Map.empty, data_benchmark_runs = Map.empty,
                    data_benchmark_results = Map.empty, db_models = [], db_benchmark_runs = [],
                    db_benchmark_results = []\<rparr>"

definition json_store :: storage where
  "json_store = \<lparr>useJson = True, data_models = Map.empty, data_benchmark_runs = Map.empty,
                  data_benchmark_results = Map.empty, db_models = [], db_benchmark_runs = [],
                  db_benchmark_results = []\<rparr>"

text \<open>
  The two stores once the model \<open>m1\<close> is registered and runBenchmark has saved the run
  \<open>run-1\<close>, which is when a result of that run is saved.
\<close>

definition sample_benchmark_run :: run where
  "sample_benchmark_run = \<lparr>run_id = ''run-1'', run_suite_name = ''default'',
                            run_model_ids = [''m1''], run_status = ''running'',
                            run_started_at = 0, run_completed_at = None\<rparr>"

definition stocked_sqlite_store :: storage where
  "stocked_sqlite_store = sqlite_store\<lparr>db_models := [sample_model],
                                        db_benchmark_runs := [sample_benchmark_run]\<rparr>"

definition stocked_json_store :: storage where
  "stocked_json_store =
     json_store\<lparr>data_models := [''m1'' \<mapsto> sample_model],
                 data_benchmark_runs := [''run-1'' \<mapsto> sample_benchmark_run]\<rparr>"

text \<open>
  A client that knows a model under one identifier only, and rejects a request that names
  any other; a client that rejects the requests naming one identifier, and no other; and
  the surroundings of a scenario with every client replaced by such a one.
\<close>

definition only_model :: "string \<Rightarrow> client \<Rightarrow> client" where
  "only_model ident c =
     \<lparr>create_stream = (\<lambda>req. if req_model req = ident then create_stream c req
                             else Rejects ''model not found''),
      create_completion = (\<lambda>req. if req_model req = ident then create_completion c req
                                 else Rejects ''model not found'')\<rparr>"

definition without_model :: "string \<Rightarrow> client \<Rightarrow> client" where
  "without_model ident c =
     \<lparr>create_stream = (\<lambda>req. if req_model req = ident then Rejects ''model not found''
                             else create_stream c req),
      create_completion = (\<lambda>req. if req_model req = ident then Rejects ''model not found''
                                 else create_completion c req)\<rparr>"

definition refusing :: "string \<Rightarrow> (nat \<Rightarrow> iteration_env) \<Rightarrow> nat \<Rightarrow> iteration_env" where
  "refusing ident env i =
     (env i)\<lparr>it_inference :=
               (it_inference (env i))\<lparr>env_client :=
                  without_model ident (env_client (it_inference (env i)))\<rparr>\<rparr>"

definition serving_only :: "string \<Rightarrow> (nat \<Rightarrow> iteration_env) \<Rightarrow> nat \<Rightarrow> iteration_env" where
  "serving_only ident env i =
     (env i)\<lparr>it_inference :=
               (it_inference (env i))\<lparr>env_client :=
                  only_model ident (env_client (it_inference (env i)))\<rparr>\<rparr>"

text \<open>
  A scenario of twenty iterations, all answered, iteration \<open>i\<close> after \<open>100 * (20 - i)\<close>
  milliseconds: twenty different latencies, recorded from the longest to the shortest.
\<close>

definition spread_env :: "nat \<Rightarrow> iteration_env" where
  "spread_env i =
     \<lparr>it_inference = \<lparr>env_client = answering_client, env_perf_start = 0,
                       env_perf_end = 100 * real (20 - i), env_date_start = 0,
                       env_timer_fired = False\<rparr>,
      it_before = no_resources, it_after = no_resources\<rparr>"

definition spread_config :: config where
  "spread_config = \<lparr>cfg_iterations = 20, cfg_timeout = Some 30000, cfg_temperature = None,
                     cfg_streaming = False\<rparr>"

definition spread_run :: "string + (aggregated \<times> results \<times> request list)" where
  "spread_run = runScenario (\<lambda>i. Some sample_model) (\<lambda>i. Some sample_info) spread_env
                  ''m1'' sample_scenario spread_config"

text \<open>A run in which every call succeeds, and one in which the final update of the run fails.\<close>

definition steady_env :: run_env where
  "steady_env = \<lparr>env_saveBenchmarkRun = Resolves (), env_prepare = (\<lambda>i. Resolves Ready),
                  env_attempt = (\<lambda>i j. TryCompleted), env_completeRun = Resolves (),
                  env_failRun = Resolves ()\<rparr>"

definition failing_store_env :: run_env where
  "failing_store_env = steady_env\<lparr>env_completeRun := Rejects ''database or disk is full''\<rparr>"

section \<open>Percentiles\<close>

lemma reduce_sum_eq: "reduce_sum xs = sum_list xs"
proof -
  have "foldl (\<lambda>sum t. sum + t) a xs = a + sum_list xs" for a :: "'a::monoid_add"
    by (induction xs arbitrary: a) (simp_all add: add.assoc)
  then show ?thesis by (simp add: reduce_sum_def)
qed

lemma percentile_index_bound:
  assumes "0 \<le> K" "K \<le> 100" "0 < n"
  shows "\<lceil>(K / 100) * real n\<rceil> - 1 < int n"
proof -
  have "(K / 100) * real n \<le> real n"
    using assms by (simp add: mult_left_le_one_le)
  then have "\<lceil>(K / 100) * real n\<rceil> \<le> int n"
    by (simp add: ceiling_le_iff)
  then show ?thesis by simp
qed

lemma calculatePercentile_nonempty:
  assumes "0 \<le> K" "K \<le> 100" "L \<noteq> []"
  shows "calculatePercentile L K = Some (L ! nat (max 0 (\<lceil>(K / 100) * real (length L)\<rceil> - 1)))"
    and "nat (max 0 (\<lceil>(K / 100) * real (length L)\<rceil> - 1)) < length L"
proof -
  let ?x = "\<lceil>(K / 100) * real (length L)\<rceil> - 1"
  have b: "?x < int (length L)"
    using percentile_index_bound[OF assms(1,2), of "length L"] assms(3) by simp
  have n: "0 < int (length L)" using assms(3) by simp
  from b n have m: "0 \<le> max 0 ?x" "max 0 ?x < int (length L)" by linarith+
  show "nat (max 0 ?x) < length L" using m by linarith
  show "calculatePercentile L K = Some (L ! nat (max 0 ?x))"
    unfolding calculatePercentile_def js_index_def Let_def using m assms(3) by simp
qed

lemma calculatePercentile_mono:
  assumes "sorted L" "0 \<le> p" "p \<le> q" "q \<le> 100"
  shows "\<exists>a b. calculatePercentile L p = Some a \<and> calculatePercentile L q = Some b \<and> a \<le> b"
proof (cases "L = []")
  case True
  then show ?thesis by (simp add: calculatePercentile_def)
next
  case False
  let ?i = "\<lambda>K. nat (max 0 (\<lceil>(K / 100) * real (length L)\<rceil> - 1))"
  have p: "calculatePercentile L p = Some (L ! ?i p)"
    using calculatePercentile_nonempty(1)[of p L] assms False by simp
  have q: "calculatePercentile L q = Some (L ! ?i q)" and qb: "?i q < length L"
    using calculatePercentile_nonempty[of q L] assms False by simp_all
  have "(p / 100) * real (length L) \<le> (q / 100) * real (length L)"
    using assms by (simp add: mult_right_mono divide_right_mono)
  then have "\<lceil>(p / 100) * real (length L)\<rceil> \<le> \<lceil>(q / 100) * real (length L)\<rceil>"
    by (rule ceiling_mono)
  then have "?i p \<le> ?i q"
    by linarith
  then have "L ! ?i p \<le> L ! ?i q"
    using assms(1) qb by (simp add: sorted_nth_mono)
  with p q show ?thesis by simp
qed




section \<open>The iteration loop\<close>

lemma counted_empty: "counted empty_results"
  by (simp add: counted_def empty_results_def)

lemma counted_record_iteration:
  "counted r \<Longrightarrow> counted (record_iteration r m b a)"
  by (simp add: counted_def record_iteration_def Let_def)

lemma run_iterations_counted:
  "counted (fst acc) \<Longrightarrow> counted (fst (run_iterations env info sc cfg is acc))"
proof (induction "is" arbitrary: acc)
  case Nil
  then show ?case by simp
next
  case (Cons i "is")
  obtain r s where acc: "acc = (r, s)" by (cases acc)
  obtain m q where rs: "runSingleInference (it_inference (env i)) info sc cfg = (m, q)"
    by (cases "runSingleInference (it_inference (env i)) info sc cfg")
  from Cons.prems acc have "counted (record_iteration r m (it_before (env i)) (it_after (env i)))"
    by (simp add: counted_record_iteration)
  then show ?case
    using Cons.IH[of "(record_iteration r m (it_before (env i)) (it_after (env i)), s @ [q])"]
    by (simp add: acc rs)
qed

lemma runSingleInference_request:
  "snd (runSingleInference e info sc cfg) = build_request info sc cfg"
  by (simp add: runSingleInference_def create_streaming_def create_plain_def Let_def
        split: outcome.splits prod.splits stream_end.splits)

lemma run_iterations_sent:
  "snd (run_iterations env info sc cfg is acc) =
     snd acc @ replicate (length is) (build_request info sc cfg)"
proof (induction "is" arbitrary: acc)
  case Nil
  then show ?case by simp
next
  case (Cons i "is")
  obtain r s where acc: "acc = (r, s)" by (cases acc)
  obtain m q where rs: "runSingleInference (it_inference (env i)) info sc cfg = (m, q)"
    by (cases "runSingleInference (it_inference (env i)) info sc cfg")
  have q: "q = build_request info sc cfg"
    using runSingleInference_request[of "it_inference (env i)" info sc cfg] rs by simp
  show ?case
    using Cons.IH[of "(record_iteration r m (it_before (env i)) (it_after (env i)), s @ [q])"]
    by (simp add: acc rs q replicate_app_Cons_same)
qed

lemma runScenario_Inr:
  assumes "runScenario getModel getLoadedModelInfo env modelId sc cfg = Inr (agg, raw, sent)"
  shows "\<exists>desc info. getModel modelId = Some desc \<and> getLoadedModelInfo modelId = Some info \<and>
           raw = fst (run_iterations env info sc cfg [0..<cfg_iterations cfg] (empty_results, [])) \<and>
           sent = snd (run_iterations env info sc cfg [0..<cfg_iterations cfg] (empty_results, [])) \<and>
           agg = aggregate cfg raw"
  using assms
  by (auto simp: runScenario_def Let_def split: option.splits prod.splits)

section \<open>Evaluation of the concrete runs\<close>

lemma upt_0_2: "[0..<2] = [0, 1]"
  by (simp add: upt_rec)

lemmas engine_defs = runScenario_def runSingleInference_def create_streaming_def
  create_plain_def build_request_def record_iteration_def empty_results_def or_default_def truthy_str_def Let_def

lemmas sample_defs = sample_run_def sample_config_def sample_env_def sample_scenario_def
  sample_info_def sample_model_def answering_client_def aborting_client_def no_resources_def
  upt_0_2

lemmas aggregate_defs = aggregate_def calculatePercentile_def js_index_def js_div_def
  reduce_sum_def avg_over_def or_null_def List.map_filter_simps

lemmas coordinator_defs = runBenchmark_def registry_set_def updateProgress_def task_progress_def
  js_round_def or_default_def steady_env_def failing_store_env_def Let_def

lemma sample_run_Inr:
  "sample_run =
     Inr (fst (projr sample_run), fst (snd (projr sample_run)), snd (snd (projr sample_run)))"
  by (simp add: sample_defs engine_defs)

lemma sample_run_unfolded:
  "runScenario (\<lambda>i. Some sample_model) (\<lambda>i. Some sample_info) sample_env
     ''m1'' sample_scenario sample_config =
   Inr (fst (projr sample_run), fst (snd (projr sample_run)), snd (snd (projr sample_run)))"
  using sample_run_Inr by (simp add: sample_run_def)

lemma sample_iterations:
  "res_iterations (fst (snd (projr sample_run))) =
     [\<lparr>m_startTime = 0, m_endTime = 1000, m_ttft = None, m_tokens = 42, m_interTokenDelays = [],
       m_error = None, m_timeout = False\<rparr>,
      \<lparr>m_startTime = 0, m_endTime = 2000, m_ttft = None, m_tokens = 0, m_interTokenDelays = [],
       m_error = Some ''Request was aborted.'', m_timeout = False\<rparr>]"
  by (simp add: sample_defs engine_defs)

text \<open>The record saved in the storage examples is the one a scenario of one iteration yields.\<close>

lemma clean_run:
  "runScenario (\<lambda>i. Some sample_model) (\<lambda>i. Some sample_info) sample_env ''m1'' sample_scenario
     clean_config =
   Inr (aggregate clean_config clean_results, clean_results,
        [build_request sample_info sample_scenario clean_config])"
  by (simp add: clean_config_def clean_results_def sample_env_def answering_client_def
        no_resources_def runScenario_def runSingleInference_def create_streaming_def
        create_plain_def record_iteration_def empty_results_def or_default_def truthy_str_def
        Let_def)

text \<open>The scenario of twenty iterations records its latencies from 2000 down to 100.\<close>

lemma upt_0_20:
  "[0..<20] = [0, 1, 2, 3, 4, 5, 6, 7, 8, 9, 10, 11, 12, 13, 14, 15, 16, 17, 18, 19]"
  by code_simp

lemma spread_run_Inr:
  "spread_run =
     Inr (fst (projr spread_run), fst (snd (projr spread_run)), snd (snd (projr spread_run)))"
  by (simp add: spread_run_def runScenario_def split: prod.splits)

lemma spread_run_unfolded:
  "runScenario (\<lambda>i. Some sample_model) (\<lambda>i. Some sample_info) spread_env
     ''m1'' sample_scenario spread_config =
   Inr (fst (projr spread_run), fst (snd (projr spread_run)), snd (snd (projr spread_run)))"
  using spread_run_Inr by (simp add: spread_run_def)

lemma spread_run_aggregate:
  "fst (projr spread_run) = aggregate spread_config (fst (snd (projr spread_run)))"
  by (simp add: spread_run_def runScenario_def split: prod.splits)

lemma spread_inference:
  "runSingleInference (it_inference (spread_env i)) sample_info sample_scenario spread_config =
     (\<lparr>m_startTime = 0, m_endTime = 100 * real (20 - i), m_ttft = None, m_tokens = 42,
       m_interTokenDelays = [], m_error = None, m_timeout = False\<rparr>,
      build_request sample_info sample_scenario spread_config)"
  by (simp add: spread_env_def spread_config_def answering_client_def runSingleInference_def
        create_plain_def or_default_def Let_def)

lemma spread_raw:
  "fst (snd (projr spread_run)) =
     fst (run_iterations spread_env sample_info sample_scenario spread_config
            [0, 1, 2, 3, 4, 5, 6, 7, 8, 9, 10, 11, 12, 13, 14, 15, 16, 17, 18, 19]
            (empty_results, []))"
proof -
  have c: "cfg_iterations spread_config = 20" by (simp add: spread_config_def)
  show ?thesis
    unfolding spread_run_def runScenario_def c upt_0_20
    by (simp split: prod.splits)
qed

lemma record_latency:
  "res_latencies (record_iteration r
       \<lparr>m_startTime = 0, m_endTime = e, m_ttft = None, m_tokens = 42,
        m_interTokenDelays = [], m_error = None, m_timeout = False\<rparr> b a) = res_latencies r @ [e]"
  by (simp add: record_iteration_def truthy_str_def Let_def)

lemma spread_step:
  "run_iterations spread_env sample_info sample_scenario spread_config (i # is) (r, s) =
     run_iterations spread_env sample_info sample_scenario spread_config is
       (record_iteration r
          \<lparr>m_startTime = 0, m_endTime = 100 * real (20 - i), m_ttft = None, m_tokens = 42,
           m_interTokenDelays = [], m_error = None, m_timeout = False\<rparr>
          (it_before (spread_env i)) (it_after (spread_env i)),
        s @ [build_request sample_info sample_scenario spread_config])"
  by (simp add: spread_inference)

lemma spread_latencies_from:
  "res_latencies (fst (run_iterations spread_env sample_info sample_scenario spread_config is (r, s)))
     = res_latencies r @ map (\<lambda>i. 100 * real (20 - i)) is"
proof (induction "is" arbitrary: r s)
  case Nil
  then show ?case by simp
next
  case (Cons i "is")
  show ?case
    unfolding spread_step Cons.IH record_latency by simp
qed

lemma spread_latencies:
  "res_latencies (fst (snd (projr spread_run))) =
     [2000, 1900, 1800, 1700, 1600, 1500, 1400, 1300, 1200, 1100,
      1000, 900, 800, 700, 600, 500, 400, 300, 200, 100]"
  unfolding spread_raw spread_latencies_from
  by (simp add: empty_results_def)

lemma spread_sorted:
  "sort [2000, 1900, 1800, 1700, 1600, 1500, 1400, 1300, 1200, 1100,
      1000, 900, 800, 700, 600, 500, 400, 300, 200, 100 :: real] =
   [100, 200, 300, 400, 500, 600, 700, 800, 900, 1000,
    1100, 1200, 1300, 1400, 1500, 1600, 1700, 1800, 1900, 2000]"
  by simp

lemma spread_percentiles:
  "calculatePercentile [100, 200, 300, 400, 500, 600, 700, 800, 900, 1000,
    1100, 1200, 1300, 1400, 1500, 1600, 1700, 1800, 1900, 2000] 50 = Some 1000"
  "calculatePercentile [100, 200, 300, 400, 500, 600, 700, 800, 900, 1000,
    1100, 1200, 1300, 1400, 1500, 1600, 1700, 1800, 1900, 2000] 95 = Some 1900"
  "calculatePercentile [100, 200, 300, 400, 500, 600, 700, 800, 900, 1000,
    1100, 1200, 1300, 1400, 1500, 1600, 1700, 1800, 1900, 2000] 99 = Some 2000"
  by (simp_all add: calculatePercentile_def js_index_def)

section \<open>Claims about a scenario\<close>

text \<open>
  Claim C1. If every iteration of a scenario exceeds the timeout, the aggregate has
  timeout_rate = 100, error_rate = 0, successful_iterations = 0, the three latency
  percentiles 0 and tps = 0.

  The code does not do this when the abort surfaces as a rejected request: the timer sets
  \<open>metrics.timeout\<close>, the rejection sets \<open>metrics.error\<close>, and runScenario counts the
  iteration once as an error and once as a timeout. For one such iteration the aggregate
  has error_rate = 100 and successful_iterations = -1; the other values are as claimed.
\<close>

theorem C1_timeout_counted_as_error:
  "map_sum id (\<lambda>(agg, raw, sent).
       (timeout_rate agg, error_rate agg, successful_iterations agg,
        latency_p50 agg, latency_p95 agg, latency_p99 agg, tps agg)) timed_out_run =
   Inr (Some 100, Some 100, - 1, Some 0, Some 0, Some 0, 0)"
  by (simp add: timed_out_run_def timed_out_env_def timed_out_config_def sample_scenario_def
        sample_info_def sample_model_def aborting_client_def no_resources_def engine_defs
        aggregate_defs)

lemma runSingleInference_only_model:
  "runSingleInference (e\<lparr>env_client := only_model (mi_id info) (env_client e)\<rparr>) info sc cfg =
     runSingleInference e info sc cfg"
  by (simp add: runSingleInference_def create_streaming_def create_plain_def only_model_def
        build_request_def Let_def split: outcome.splits prod.splits stream_end.splits)

lemma run_iterations_serving_only:
  "run_iterations (serving_only (mi_id info) env) info sc cfg is acc =
     run_iterations env info sc cfg is acc"
proof (induction "is" arbitrary: acc)
  case Nil
  then show ?case by simp
next
  case (Cons i "is")
  obtain r s where acc: "acc = (r, s)" by (cases acc)
  have e: "runSingleInference (it_inference (serving_only (mi_id info) env i)) info sc cfg =
           runSingleInference (it_inference (env i)) info sc cfg"
    using runSingleInference_only_model[where e="it_inference (env i)" and info=info
        and sc=sc and cfg=cfg]
    by (simp add: serving_only_def)
  have b: "it_before (serving_only (mi_id info) env i) = it_before (env i)"
          "it_after (serving_only (mi_id info) env i) = it_after (env i)"
    by (simp_all add: serving_only_def)
  show ?case
    by (simp add: acc e b Cons.IH split: prod.splits)
qed

lemma runSingleInference_without_model:
  "m_error (fst (runSingleInference (e\<lparr>env_client := without_model (mi_id info) (env_client e)\<rparr>)
                  info sc cfg)) = Some ''model not found''"
  by (simp add: runSingleInference_def create_streaming_def create_plain_def without_model_def
        build_request_def Let_def)

lemma record_iteration_iterations:
  "res_iterations (record_iteration r m b a) = res_iterations r @ [m]"
  by (simp add: record_iteration_def Let_def)

lemma run_iterations_iterations:
  "res_iterations (fst (run_iterations env info sc cfg is acc)) =
     res_iterations (fst acc) @
     map (\<lambda>i. fst (runSingleInference (it_inference (env i)) info sc cfg)) is"
proof (induction "is" arbitrary: acc)
  case Nil
  then show ?case by simp
next
  case (Cons i "is")
  obtain r s where acc: "acc = (r, s)" by (cases acc)
  obtain m q where rs: "runSingleInference (it_inference (env i)) info sc cfg = (m, q)"
    by (cases "runSingleInference (it_inference (env i)) info sc cfg")
  show ?case
    using Cons.IH[of "(record_iteration r m (it_before (env i)) (it_after (env i)), s @ [q])"]
    by (simp add: acc rs record_iteration_iterations)
qed

lemma runScenario_refusing:
  assumes "getModel modelId = Some desc" "getLoadedModelInfo modelId = Some info"
  shows "map_sum id (\<lambda>(agg, raw, sent). map m_error (res_iterations raw))
           (runScenario getModel getLoadedModelInfo (refusing (mi_id info) env) modelId sc cfg) =
         Inr (replicate (cfg_iterations cfg) (Some ''model not found''))"
proof -
  have e: "m_error (fst (runSingleInference (it_inference (refusing (mi_id info) env i)) info sc cfg))
             = Some ''model not found''" for i
    using runSingleInference_without_model[where e="it_inference (env i)" and info=info
        and sc=sc and cfg=cfg]
    by (simp add: refusing_def)
  have "map m_error (res_iterations (fst (run_iterations (refusing (mi_id info) env) info sc cfg
            [0..<cfg_iterations cfg] (empty_results, [])))) =
        replicate (cfg_iterations cfg) (Some ''model not found'')"
    by (simp add: run_iterations_iterations empty_results_def e o_def map_replicate_const)
  then show ?thesis
    by (simp add: runScenario_def assms case_prod_beta)
qed

text \<open>
  Claim C2. In every inference of runScenario, streaming or not, the request that the
  client receives carries as \<open>model\<close> the \<open>id\<close> of the LoadedModelInfo cached for the
  model: the client receives one request per iteration, each with that \<open>id\<close> and with
  the configured streaming mode. The descriptor's \<open>alias\<close> and \<open>model_id\<close> play no
  part: the argument differs from each of them whenever the cached \<open>id\<close> does, and
  clients that reject every request naming another model than that \<open>id\<close> give the same
  aggregate, the same raw results and the same requests, while clients that reject the
  requests naming that \<open>id\<close> are refused in every iteration.
\<close>

theorem C2_model_argument:
  assumes "runScenario getModel getLoadedModelInfo env modelId sc cfg = Inr (agg, raw, sent)"
  shows "\<exists>desc info. getModel modelId = Some desc \<and> getLoadedModelInfo modelId = Some info \<and>
           length sent = cfg_iterations cfg \<and>
           list_all (\<lambda>req. req_model req = mi_id info \<and> req_stream req = cfg_streaming cfg) sent \<and>
           (mi_id info \<noteq> md_alias desc \<longrightarrow> list_all (\<lambda>req. req_model req \<noteq> md_alias desc) sent) \<and>
           (mi_id info \<noteq> md_model_id desc \<longrightarrow>
              list_all (\<lambda>req. req_model req \<noteq> md_model_id desc) sent) \<and>
           runScenario getModel getLoadedModelInfo (serving_only (mi_id info) env) modelId sc cfg =
             Inr (agg, raw, sent) \<and>
           map_sum id (\<lambda>(agg', raw', sent'). map m_error (res_iterations raw'))
             (runScenario getModel getLoadedModelInfo (refusing (mi_id info) env) modelId sc cfg) =
             Inr (replicate (cfg_iterations cfg) (Some ''model not found''))"
proof -
  from runScenario_Inr[OF assms] obtain desc info where
    d: "getModel modelId = Some desc" and i: "getLoadedModelInfo modelId = Some info" and
    s: "sent = snd (run_iterations env info sc cfg [0..<cfg_iterations cfg] (empty_results, []))"
    by blast
  have sent: "sent = replicate (cfg_iterations cfg) (build_request info sc cfg)"
    by (simp add: s run_iterations_sent)
  have m: "req_model (build_request info sc cfg) = mi_id info"
          "req_stream (build_request info sc cfg) = cfg_streaming cfg"
    by (simp_all add: build_request_def)
  have o: "runScenario getModel getLoadedModelInfo (serving_only (mi_id info) env) modelId sc cfg =
             runScenario getModel getLoadedModelInfo env modelId sc cfg"
    by (simp add: runScenario_def d i run_iterations_serving_only)
  have l: "length sent = cfg_iterations cfg"
    and a: "list_all (\<lambda>req. req_model req = mi_id info \<and> req_stream req = cfg_streaming cfg) sent"
    and x: "mi_id info \<noteq> md_alias desc \<longrightarrow> list_all (\<lambda>req. req_model req \<noteq> md_alias desc) sent"
    and y: "mi_id info \<noteq> md_model_id desc \<longrightarrow>
              list_all (\<lambda>req. req_model req \<noteq> md_model_id desc) sent"
    using m by (auto simp: sent list_all_iff)
  have f: "map_sum id (\<lambda>(agg', raw', sent'). map m_error (res_iterations raw'))
             (runScenario getModel getLoadedModelInfo (refusing (mi_id info) env) modelId sc cfg) =
           Inr (replicate (cfg_iterations cfg) (Some ''model not found''))"
    using d i by (rule runScenario_refusing)
  from d i l a x y o f assms show ?thesis
    by (intro exI[of _ desc] exI[of _ info]) simp
qed

theorem C2_model_argument_witness:
  "map_sum id (\<lambda>(agg, raw, sent). map req_model sent) sample_run =
     Inr [''Phi-3-mini-4k-instruct-generic-cpu:1'', ''Phi-3-mini-4k-instruct-generic-cpu:1''] \<and>
   runScenario (\<lambda>i. Some sample_model) (\<lambda>i. Some sample_info)
     (serving_only ''Phi-3-mini-4k-instruct-generic-cpu:1'' sample_env) ''m1'' sample_scenario
     sample_config = sample_run \<and>
   map_sum id (\<lambda>(agg, raw, sent). map m_error (res_iterations raw))
     (runScenario (\<lambda>i. Some sample_model) (\<lambda>i. Some sample_info)
        (refusing ''Phi-3-mini-4k-instruct-generic-cpu:1'' sample_env) ''m1'' sample_scenario
        sample_config) =
     Inr [Some ''model not found'', Some ''model not found'']"
proof -
  let ?sent = "snd (snd (projr sample_run))"
  from C2_model_argument[OF sample_run_unfolded]
  have l: "length ?sent = 2"
    and a: "list_all (\<lambda>req. req_model req = ''Phi-3-mini-4k-instruct-generic-cpu:1'') ?sent"
    and o: "runScenario (\<lambda>i. Some sample_model) (\<lambda>i. Some sample_info)
              (serving_only ''Phi-3-mini-4k-instruct-generic-cpu:1'' sample_env) ''m1''
              sample_scenario sample_config =
            Inr (fst (projr sample_run), fst (snd (projr sample_run)), snd (snd (projr sample_run)))"
    and f: "map_sum id (\<lambda>(agg, raw, sent). map m_error (res_iterations raw))
              (runScenario (\<lambda>i. Some sample_model) (\<lambda>i. Some sample_info)
                 (refusing ''Phi-3-mini-4k-instruct-generic-cpu:1'' sample_env) ''m1''
                 sample_scenario sample_config) =
            Inr [Some ''model not found'', Some ''model not found'']"
    by (auto simp: sample_model_def sample_info_def sample_config_def list_all_iff
          numeral_2_eq_2)
  from l obtain x y where xy: "?sent = [x, y]"
    by (cases ?sent; simp) (metis length_0_conv length_Suc_conv)
  have "map req_model ?sent =
          [''Phi-3-mini-4k-instruct-generic-cpu:1'', ''Phi-3-mini-4k-instruct-generic-cpu:1'']"
    using a unfolding xy by simp
  then have v: "map_sum id (\<lambda>(agg, raw, sent). map req_model sent) sample_run =
     Inr [''Phi-3-mini-4k-instruct-generic-cpu:1'', ''Phi-3-mini-4k-instruct-generic-cpu:1'']"
    by (subst sample_run_Inr) (simp add: case_prod_beta)
  from o sample_run_Inr have "runScenario (\<lambda>i. Some sample_model) (\<lambda>i. Some sample_info)
     (serving_only ''Phi-3-mini-4k-instruct-generic-cpu:1'' sample_env) ''m1'' sample_scenario
     sample_config = sample_run"
    by simp
  with v f show ?thesis by blast
qed

text \<open>
  Claim C6. For every scenario that produces a result, the three percentiles of the
  aggregate are defined and latency_p50 \<le> latency_p95 \<le> latency_p99.
\<close>

theorem C6_percentiles_ordered:
  assumes "runScenario getModel getLoadedModelInfo env modelId sc cfg = Inr (agg, raw, sent)"
  shows "\<exists>a b c. latency_p50 agg = Some a \<and> latency_p95 agg = Some b \<and>
                  latency_p99 agg = Some c \<and> a \<le> b \<and> b \<le> c"
proof -
  from runScenario_Inr[OF assms] have agg: "agg = aggregate cfg raw" by blast
  let ?L = "sort (res_latencies raw)"
  have s: "sorted ?L" by simp
  obtain a b where ab: "calculatePercentile ?L 50 = Some a" "calculatePercentile ?L 95 = Some b" "a \<le> b"
    using calculatePercentile_mono[OF s, of 50 95] by auto
  obtain b' c where bc: "calculatePercentile ?L 95 = Some b'" "calculatePercentile ?L 99 = Some c" "b' \<le> c"
    using calculatePercentile_mono[OF s, of 95 99] by auto
  from ab bc have "b' = b" by simp
  with ab bc show ?thesis
    by (simp add: agg aggregate_def Let_def)
qed

theorem C6_percentiles_ordered_witness:
  "map_sum id (\<lambda>(agg, raw, sent). (latency_p50 agg, latency_p95 agg, latency_p99 agg)) spread_run
     = Inr (Some 1000, Some 1900, Some 2000)"
proof -
  let ?agg = "fst (projr spread_run)"
  have l: "latency_p50 ?agg = calculatePercentile (sort (res_latencies (fst (snd (projr spread_run))))) 50"
          "latency_p95 ?agg = calculatePercentile (sort (res_latencies (fst (snd (projr spread_run))))) 95"
          "latency_p99 ?agg = calculatePercentile (sort (res_latencies (fst (snd (projr spread_run))))) 99"
    using spread_run_aggregate by (simp_all add: aggregate_def Let_def)
  have v: "latency_p50 ?agg = Some 1000" "latency_p95 ?agg = Some 1900"
          "latency_p99 ?agg = Some 2000"
    unfolding l spread_latencies spread_sorted
    by (rule spread_percentiles)+
  from C6_percentiles_ordered[OF spread_run_unfolded] obtain a b c where
    "latency_p50 ?agg = Some a" "latency_p95 ?agg = Some b" "latency_p99 ?agg = Some c"
    "a \<le> b" "b \<le> c"
    by blast
  with v show ?thesis
    by (subst spread_run_Inr) (simp add: case_prod_beta)
qed

text \<open>
  Claim C7. The aggregate tps is the sum of the token counts of the successful iterations
  (no error, no timeout) divided by the sum of their latencies in seconds, and 0 when that
  sum is 0. The clock is monotonic (no iteration ends before it starts), and an error is
  recorded by a non-empty message.
\<close>

theorem C7_tps_over_successful:
  assumes run: "runScenario getModel getLoadedModelInfo env modelId sc cfg = Inr (agg, raw, sent)"
    and clock: "list_all (\<lambda>m. m_startTime m \<le> m_endTime m) (res_iterations raw)"
    and msgs: "list_all (\<lambda>m. m_error m \<noteq> Some []) (res_iterations raw)"
  shows "tps agg =
           (let ok = filter (\<lambda>m. m_error m = None \<and> \<not> m_timeout m) (res_iterations raw);
                tokens = sum_list (map m_tokens ok);
                seconds = sum_list (map (\<lambda>m. m_endTime m - m_startTime m) ok) / 1000
            in if seconds = 0 then 0 else real tokens / seconds)"
proof -
  from runScenario_Inr[OF run] obtain info where
    raw: "raw = fst (run_iterations env info sc cfg [0..<cfg_iterations cfg] (empty_results, []))"
    and agg: "agg = aggregate cfg raw"
    by blast
  have c: "counted raw"
    unfolding raw by (rule run_iterations_counted) (simp add: counted_empty)
  let ?ok = "filter (\<lambda>m. m_error m = None \<and> \<not> m_timeout m) (res_iterations raw)"
  have f: "filter (\<lambda>m. \<not> truthy_str (m_error m) \<and> \<not> m_timeout m) (res_iterations raw) = ?ok"
    using msgs by (intro filter_cong) (auto simp: list_all_iff truthy_str_def split: option.splits)
  have lat: "res_latencies raw = map (\<lambda>m. m_endTime m - m_startTime m) ?ok"
    and tok: "res_tokenCounts raw = map m_tokens ?ok"
    using c f by (simp_all add: counted_def Let_def)
  have "0 \<le> sum_list (map (\<lambda>m. m_endTime m - m_startTime m) ?ok)"
    using clock by (intro sum_list_nonneg) (auto simp: list_all_iff)
  then have pos: "0 < sum_list (map (\<lambda>m. m_endTime m - m_startTime m) ?ok) / 1000 \<longleftrightarrow>
                  sum_list (map (\<lambda>m. m_endTime m - m_startTime m) ?ok) / 1000 \<noteq> 0"
    by auto
  have "tps agg =
          (if 0 < sum_list (map (\<lambda>m. m_endTime m - m_startTime m) ?ok) / 1000
           then real (sum_list (map m_tokens ?ok)) /
                (sum_list (map (\<lambda>m. m_endTime m - m_startTime m) ?ok) / 1000)
           else 0)"
    by (simp add: agg aggregate_def Let_def reduce_sum_eq lat tok)
  then show ?thesis
    unfolding Let_def using pos by auto
qed

theorem C7_tps_over_successful_witness:
  "map_sum id (\<lambda>(agg, raw, sent). tps agg) sample_run = Inr 42"
proof -
  have clock: "list_all (\<lambda>m. m_startTime m \<le> m_endTime m)
                 (res_iterations (fst (snd (projr sample_run))))"
    by (simp add: sample_iterations)
  have msgs: "list_all (\<lambda>m. m_error m \<noteq> Some [])
                (res_iterations (fst (snd (projr sample_run))))"
    by (simp add: sample_iterations)
  from C7_tps_over_successful[OF sample_run_unfolded clock msgs]
  have "tps (fst (projr sample_run)) = 42"
    by (simp add: sample_iterations)
  then show ?thesis
    by (subst sample_run_Inr) (simp add: case_prod_beta)
qed

lemma avg_over_eq:
  assumes "List.map_filter (\<lambda>s. field (after s)) snaps \<noteq> [] \<longrightarrow> n \<noteq> 0"
  shows "avg_over field snaps n =
           (let xs = List.map_filter (\<lambda>s. field (after s)) snaps;
                mean = sum_list xs / real n
            in if xs = [] \<or> mean = 0 then None else Some mean)"
  using assms by (auto simp: avg_over_def or_null_def js_div_def reduce_sum_eq Let_def)

lemma map_filter_nonempty_length:
  "List.map_filter f xs \<noteq> [] \<Longrightarrow> length xs \<noteq> 0"
  by (cases xs) (simp_all add: List.map_filter_simps)

text \<open>
  Claim C10. cpu_avg, ram_avg and gpu_avg are null when there is no non-null sample and
  also whenever the mean computed is exactly 0, and are that mean otherwise; so none of
  them is ever the number 0. The mean of cpu and ram is over all snapshots, the mean of
  gpu over the non-null samples.
\<close>

theorem C10_zero_average_is_null:
  "cpu_avg (aggregate cfg r) =
     (let xs = List.map_filter (\<lambda>s. cpu (after s)) (res_resourceSnapshots r);
          mean = sum_list xs / real (length (res_resourceSnapshots r))
      in if xs = [] \<or> mean = 0 then None else Some mean) \<and>
   ram_avg (aggregate cfg r) =
     (let xs = List.map_filter (\<lambda>s. ram (after s)) (res_resourceSnapshots r);
          mean = sum_list xs / real (length (res_resourceSnapshots r))
      in if xs = [] \<or> mean = 0 then None else Some mean) \<and>
   gpu_avg (aggregate cfg r) =
     (let xs = List.map_filter (\<lambda>s. gpu (after s)) (res_resourceSnapshots r);
          mean = sum_list xs / real (length xs)
      in if xs = [] \<or> mean = 0 then None else Some mean) \<and>
   cpu_avg (aggregate cfg r) \<noteq> Some 0 \<and> ram_avg (aggregate cfg r) \<noteq> Some 0 \<and>
   gpu_avg (aggregate cfg r) \<noteq> Some 0"
proof -
  have c: "cpu_avg (aggregate cfg r) =
             avg_over cpu (res_resourceSnapshots r) (length (res_resourceSnapshots r))"
    and m: "ram_avg (aggregate cfg r) =
             avg_over ram (res_resourceSnapshots r) (length (res_resourceSnapshots r))"
    and g: "gpu_avg (aggregate cfg r) =
             avg_over gpu (res_resourceSnapshots r)
               (length (List.map_filter (\<lambda>s. gpu (after s)) (res_resourceSnapshots r)))"
    by (simp_all add: aggregate_def Let_def)
  have z: "avg_over field snaps n \<noteq> Some 0" for field snaps n
    by (simp add: avg_over_def or_null_def js_div_def split: option.splits)
  have n: "List.map_filter f (res_resourceSnapshots r) \<noteq> [] \<longrightarrow>
           length (res_resourceSnapshots r) \<noteq> 0" for f :: "snapshot \<Rightarrow> real option"
    using map_filter_nonempty_length[of f "res_resourceSnapshots r"] by blast
  have c': "cpu_avg (aggregate cfg r) =
     (let xs = List.map_filter (\<lambda>s. cpu (after s)) (res_resourceSnapshots r);
          mean = sum_list xs / real (length (res_resourceSnapshots r))
      in if xs = [] \<or> mean = 0 then None else Some mean)"
    unfolding c by (rule avg_over_eq) (rule n)
  have m': "ram_avg (aggregate cfg r) =
     (let xs = List.map_filter (\<lambda>s. ram (after s)) (res_resourceSnapshots r);
          mean = sum_list xs / real (length (res_resourceSnapshots r))
      in if xs = [] \<or> mean = 0 then None else Some mean)"
    unfolding m by (rule avg_over_eq) (rule n)
  have g': "gpu_avg (aggregate cfg r) =
     (let xs = List.map_filter (\<lambda>s. gpu (after s)) (res_resourceSnapshots r);
          mean = sum_list xs / real (length xs)
      in if xs = [] \<or> mean = 0 then None else Some mean)"
    unfolding g by (subst avg_over_eq) (simp_all add: Let_def)
  have "cpu_avg (aggregate cfg r) \<noteq> Some 0" "ram_avg (aggregate cfg r) \<noteq> Some 0"
    "gpu_avg (aggregate cfg r) \<noteq> Some 0"
    unfolding c m g by (rule z)+
  with c' m' g' show ?thesis by blast
qed

section \<open>Progress of a run\<close>

lemma js_round_mono: "x \<le> y \<Longrightarrow> js_round x \<le> js_round y"
  by (simp add: js_round_def floor_mono)

lemma task_progress_mono:
  assumes "c \<le> c'"
  shows "task_progress t c \<le> task_progress t c'"
proof (cases "t > 0")
  case True
  have "real c / real t \<le> real c' / real t"
    using assms by (simp add: divide_right_mono)
  then have "(real c / real t) * 100 \<le> (real c' / real t) * 100"
    by (rule mult_right_mono) simp
  then show ?thesis
    using True by (simp add: task_progress_def js_round_mono)
next
  case False
  then show ?thesis by (simp add: task_progress_def)
qed

lemma task_progress_zero: "task_progress t 0 = 0"
  by (simp add: task_progress_def js_round_def)

lemma task_progress_nonneg: "0 \<le> task_progress t c"
  by (simp add: task_progress_def js_round_def)

lemma task_progress_le_100:
  assumes "c \<le> t"
  shows "task_progress t c \<le> 100"
proof (cases "t > 0")
  case True
  have "real c / real t \<le> 1"
    using assms True by simp
  then have "(real c / real t) * 100 + 1 / 2 \<le> 100 + 1 / 2"
    by simp
  then have "\<lfloor>(real c / real t) * 100 + 1 / 2\<rfloor> \<le> \<lfloor>(100::real) + 1 / 2\<rfloor>"
    by (rule floor_mono)
  moreover have "\<lfloor>(100::real) + 1 / 2\<rfloor> = 100" by linarith
  ultimately show ?thesis
    using True by (simp add: task_progress_def js_round_def)
next
  case False
  then show ?thesis by (simp add: task_progress_def)
qed

lemma rising_step:
  assumes "rising t runId st"
  shows "rising t runId (updateProgress cb t runId (st\<lparr>completedTasks := completedTasks st + 1\<rparr>))"
proof -
  have m: "task_progress t (completedTasks st) \<le> task_progress t (completedTasks st + 1)"
    by (rule task_progress_mono) simp
  show ?thesis
    using assms m task_progress_nonneg[of t "completedTasks st + 1"]
    by (auto simp: rising_def updateProgress_def registry_set_def Let_def sorted_append
          list_all_iff)
qed

lemma updateProgress_completedTasks:
  "completedTasks (updateProgress cb t runId st) = completedTasks st"
  by (simp add: updateProgress_def registry_set_def Let_def)

lemma run_scenarios_rising:
  "rising t runId st \<Longrightarrow>
   rising t runId (fst (run_scenarios env cb t runId i js st)) \<and>
   completedTasks (fst (run_scenarios env cb t runId i js st)) \<le> completedTasks st + length js"
proof (induction js arbitrary: st)
  case Nil
  then show ?case by simp
next
  case (Cons j js)
  let ?st' = "updateProgress cb t runId (st\<lparr>completedTasks := completedTasks st + 1\<rparr>)"
  have r: "rising t runId ?st'" using Cons.prems by (rule rising_step)
  have c: "completedTasks ?st' = completedTasks st + 1"
    by (simp add: updateProgress_completedTasks)
  show ?case
  proof (cases "env_attempt env i j")
    case (CatchThrew msg)
    then show ?thesis using r c by (simp add: Let_def)
  next
    case TryCompleted
    then show ?thesis using Cons.IH[OF r] c by (simp add: Let_def)
  next
    case CaughtAndLogged
    then show ?thesis using Cons.IH[OF r] c by (simp add: Let_def)
  qed
qed

lemma run_models_rising:
  "rising t runId st \<Longrightarrow>
   rising t runId (fst (run_models env cb t runId scenarios ms st)) \<and>
   completedTasks (fst (run_models env cb t runId scenarios ms st))
     \<le> completedTasks st + length ms * or_default scenarios 0"
proof (induction ms arbitrary: st)
  case Nil
  then show ?case by simp
next
  case (Cons i ms)
  show ?case
  proof (cases "env_prepare env i")
    case (Rejects msg)
    then show ?thesis using Cons.prems by simp
  next
    case (Resolves p)
    show ?thesis
    proof (cases p)
      case NotInStorage
      then show ?thesis using Resolves Cons.IH[OF Cons.prems] by simp
    next
      case NotReady
      then show ?thesis using Resolves Cons.IH[OF Cons.prems] by simp
    next
      case Ready
      show ?thesis
      proof (cases scenarios)
        case None
        then show ?thesis using Resolves Ready Cons.prems by simp
      next
        case (Some n)
        obtain st' thrown where rs: "run_scenarios env cb t runId i [0..<n] st = (st', thrown)"
          by (cases "run_scenarios env cb t runId i [0..<n] st")
        from run_scenarios_rising[OF Cons.prems, where env=env and cb=cb and i=i and js="[0..<n]"] rs
        have r: "rising t runId st'" and c: "completedTasks st' \<le> completedTasks st + n"
          by simp_all
        have d: "or_default scenarios 0 = n"
          using Some by (simp add: or_default_def)
        show ?thesis
        proof (cases thrown)
          case None
          then show ?thesis
            using Resolves Ready \<open>scenarios = Some n\<close> rs d Cons.IH[OF r] c by simp
        next
          case (Some msg)
          then show ?thesis
            using Resolves Ready \<open>scenarios = Some n\<close> rs d r c by simp
        qed
      qed
    qed
  qed
qed

lemma rising_bounded:
  assumes "rising t runId st" "completedTasks st \<le> t"
  shows "list_all (\<lambda>e. 0 \<le> reg_progress e \<and> reg_progress e \<le> 100 \<and> reg_status e = Running)
           (published st)"
proof -
  have "task_progress t (completedTasks st) \<le> 100"
    using assms(2) by (rule task_progress_le_100)
  then show ?thesis
    using assms(1) by (auto simp: rising_def list_all_iff)
qed

text \<open>The three ways runBenchmark ends, over the state \<open>st\<close> reached before the last step.\<close>

lemma runBenchmark_ends:
  "\<exists>st. rising (models * or_default scenarios 0) runId st \<and>
        completedTasks st \<le> models * or_default scenarios 0 \<and>
        (runBenchmark env cb models scenarios runId registry =
           (registry_set runId \<lparr>reg_id = runId, reg_status = Completed, reg_progress = 100,
                                reg_error = None\<rparr> st, None) \<or>
         (\<exists>msg. runBenchmark env cb models scenarios runId registry =
           (registry_set runId \<lparr>reg_id = runId, reg_status = Failed, reg_progress = 0,
                                reg_error = Some msg\<rparr> st, Some msg)) \<or>
         (\<exists>msg. runBenchmark env cb models scenarios runId registry = (st, Some msg)))"
proof -
  let ?t = "models * or_default scenarios 0"
  let ?st0 = "registry_set runId
                \<lparr>reg_id = runId, reg_status = Running, reg_progress = 0, reg_error = None\<rparr>
                \<lparr>runningBenchmarks = registry, completedTasks = 0, published = [],
                 reported = []\<rparr>"
  have r0: "rising ?t runId ?st0"
    by (simp add: rising_def registry_set_def task_progress_zero)
  have c0: "completedTasks ?st0 = 0"
    by (simp add: registry_set_def)
  obtain st thrown where rm: "run_models env cb ?t runId scenarios [0..<models] ?st0 = (st, thrown)"
    by (cases "run_models env cb ?t runId scenarios [0..<models] ?st0")
  from run_models_rising[OF r0, where env=env and cb=cb and scenarios=scenarios
      and ms="[0..<models]"] rm c0
  have r: "rising ?t runId st" and c: "completedTasks st \<le> ?t"
    by simp_all
  show ?thesis
  proof (cases "env_saveBenchmarkRun env")
    case (Rejects msg)
    then show ?thesis
      using r0 c0
      by (intro exI[of _ ?st0]) (cases "env_failRun env"; simp add: runBenchmark_def Let_def)
  next
    case (Resolves u)
    show ?thesis
    proof (cases thrown)
      case (Some msg)
      then show ?thesis
        using r c Resolves rm
        by (intro exI[of _ st]) (cases "env_failRun env"; simp add: runBenchmark_def Let_def)
    next
      case None
      then show ?thesis
        using r c Resolves rm
        by (intro exI[of _ st])
           (cases "env_completeRun env"; cases "env_failRun env";
            simp add: runBenchmark_def Let_def)
    qed
  qed
qed

text \<open>
  Claim C3, as stated: the progress values published to the registry within one run are
  non-decreasing in every execution of runBenchmark, including those that end failed.
  This fails: when the update of the run record to completed throws after the only task
  is done, the registry shows 0, then 100, then the 0 of the failure branch.
\<close>

theorem C3_progress_falls_on_failure:
  "map reg_progress
     (published (fst (runBenchmark failing_store_env True 1 (Some 1) ''run-1'' Map.empty))) =
     [0, 100, 0] \<and>
   \<not> sorted (map reg_progress
     (published (fst (runBenchmark failing_store_env True 1 (Some 1) ''run-1'' Map.empty))))"
  by (simp add: coordinator_defs)

text \<open>
  Claim C3, amended. Within one run the progress values passed to the progress callback
  are non-decreasing, and so are the progress values published to the registry by the
  entries other than the failed one; in an execution that ends without an exception the
  whole published sequence is non-decreasing, and a failed entry has progress 0.
\<close>

theorem C3_progress_rises_until_failure:
  "sorted (reported (fst (runBenchmark env cb models scenarios runId registry))) \<and>
   sorted (map reg_progress (filter (\<lambda>e. reg_status e \<noteq> Failed)
             (published (fst (runBenchmark env cb models scenarios runId registry))))) \<and>
   (snd (runBenchmark env cb models scenarios runId registry) = None \<longrightarrow>
      sorted (map reg_progress
                (published (fst (runBenchmark env cb models scenarios runId registry))))) \<and>
   list_all (\<lambda>e. reg_status e = Failed \<longrightarrow> reg_progress e = 0)
     (published (fst (runBenchmark env cb models scenarios runId registry)))"
proof -
  from runBenchmark_ends[where models=models and scenarios=scenarios and runId=runId
      and env=env and cb=cb and registry=registry]
  obtain st where r: "rising (models * or_default scenarios 0) runId st"
    and c: "completedTasks st \<le> models * or_default scenarios 0"
    and e: "runBenchmark env cb models scenarios runId registry =
              (registry_set runId \<lparr>reg_id = runId, reg_status = Completed, reg_progress = 100,
                                   reg_error = None\<rparr> st, None) \<or>
            (\<exists>msg. runBenchmark env cb models scenarios runId registry =
              (registry_set runId \<lparr>reg_id = runId, reg_status = Failed, reg_progress = 0,
                                   reg_error = Some msg\<rparr> st, Some msg)) \<or>
            (\<exists>msg. runBenchmark env cb models scenarios runId registry = (st, Some msg))"
    by blast
  have b: "list_all (\<lambda>e. 0 \<le> reg_progress e \<and> reg_progress e \<le> 100 \<and> reg_status e = Running)
             (published st)"
    using r c by (rule rising_bounded)
  have s: "sorted (map reg_progress (published st))" "sorted (reported st)"
    using r by (simp_all add: rising_def)
  have f: "filter (\<lambda>e. reg_status e \<noteq> Failed) (published st) = published st"
    using b by (auto simp: list_all_iff filter_id_conv)
  have g: "list_all (\<lambda>e. reg_status e = Failed \<longrightarrow> reg_progress e = 0) (published st)"
    using b by (auto simp: list_all_iff)
  from e show ?thesis
  proof (elim disjE exE)
    assume "runBenchmark env cb models scenarios runId registry =
              (registry_set runId \<lparr>reg_id = runId, reg_status = Completed, reg_progress = 100,
                                   reg_error = None\<rparr> st, None)"
    then show ?thesis
      using s b f by (auto simp: registry_set_def sorted_append list_all_iff)
  next
    fix msg
    assume "runBenchmark env cb models scenarios runId registry =
              (registry_set runId \<lparr>reg_id = runId, reg_status = Failed, reg_progress = 0,
                                   reg_error = Some msg\<rparr> st, Some msg)"
    then show ?thesis
      using s f g by (simp add: registry_set_def)
  next
    fix msg
    assume "runBenchmark env cb models scenarios runId registry = (st, Some msg)"
    then show ?thesis
      using s f g by simp
  qed
qed

theorem C3_progress_rises_until_failure_witness:
  "map reg_progress
     (published (fst (runBenchmark steady_env True 1 (Some 2) ''run-1'' Map.empty))) =
     [0, 50, 100, 100] \<and>
   sorted (map reg_progress
     (published (fst (runBenchmark steady_env True 1 (Some 2) ''run-1'' Map.empty))))"
proof -
  have n: "snd (runBenchmark steady_env True 1 (Some 2) ''run-1'' Map.empty) = None"
    by (simp add: coordinator_defs upt_0_2)
  have v: "map reg_progress
             (published (fst (runBenchmark steady_env True 1 (Some 2) ''run-1'' Map.empty))) =
           [0, 50, 100, 100]"
    by (simp add: coordinator_defs upt_0_2)
  from C3_progress_rises_until_failure[of steady_env True 1 "Some 2" "''run-1''" Map.empty] n
  have "sorted (map reg_progress
          (published (fst (runBenchmark steady_env True 1 (Some 2) ''run-1'' Map.empty))))"
    by blast
  with v show ?thesis by blast
qed

text \<open>
  Claim C4, as stated: in every state of the registry an entry's progress is 100 if and
  only if its status is completed, so no entry is running with progress 100. This fails:
  after the last task updateProgress publishes a running entry with progress 100, before
  the completion branch replaces it.
\<close>

theorem C4_running_entry_at_100:
  "\<lparr>reg_id = ''run-1'', reg_status = Running, reg_progress = 100, reg_error = None\<rparr>
     \<in> set (published (fst (runBenchmark steady_env True 1 (Some 1) ''run-1'' Map.empty)))"
  by (simp add: coordinator_defs)

text \<open>
  Claim C4, amended. Every entry published for a run has a progress between 0 and 100,
  and an entry in a terminal status (completed or failed) has progress 100 if and only if
  its status is completed; a running entry may have progress 100. getBenchmarkStatus
  returns the last entry published.
\<close>

theorem C4_terminal_progress:
  "list_all (\<lambda>e. 0 \<le> reg_progress e \<and> reg_progress e \<le> 100 \<and>
                 (reg_status e \<noteq> Running \<longrightarrow>
                    (reg_progress e = 100 \<longleftrightarrow> reg_status e = Completed)))
     (published (fst (runBenchmark env cb models scenarios runId registry))) \<and>
   getBenchmarkStatus (fst (runBenchmark env cb models scenarios runId registry)) runId =
     Some (last (published (fst (runBenchmark env cb models scenarios runId registry))))"
proof -
  from runBenchmark_ends[where models=models and scenarios=scenarios and runId=runId
      and env=env and cb=cb and registry=registry]
  obtain st where r: "rising (models * or_default scenarios 0) runId st"
    and c: "completedTasks st \<le> models * or_default scenarios 0"
    and e: "runBenchmark env cb models scenarios runId registry =
              (registry_set runId \<lparr>reg_id = runId, reg_status = Completed, reg_progress = 100,
                                   reg_error = None\<rparr> st, None) \<or>
            (\<exists>msg. runBenchmark env cb models scenarios runId registry =
              (registry_set runId \<lparr>reg_id = runId, reg_status = Failed, reg_progress = 0,
                                   reg_error = Some msg\<rparr> st, Some msg)) \<or>
            (\<exists>msg. runBenchmark env cb models scenarios runId registry = (st, Some msg))"
    by blast
  have b: "list_all (\<lambda>e. 0 \<le> reg_progress e \<and> reg_progress e \<le> 100 \<and> reg_status e = Running)
             (published st)"
    using r c by (rule rising_bounded)
  have l: "published st \<noteq> []" "runningBenchmarks st runId = Some (last (published st))"
    using r by (simp_all add: rising_def)
  from e show ?thesis
  proof (elim disjE exE)
    assume "runBenchmark env cb models scenarios runId registry =
              (registry_set runId \<lparr>reg_id = runId, reg_status = Completed, reg_progress = 100,
                                   reg_error = None\<rparr> st, None)"
    then show ?thesis
      using b by (auto simp: registry_set_def getBenchmarkStatus_def list_all_iff)
  next
    fix msg
    assume "runBenchmark env cb models scenarios runId registry =
              (registry_set runId \<lparr>reg_id = runId, reg_status = Failed, reg_progress = 0,
                                   reg_error = Some msg\<rparr> st, Some msg)"
    then show ?thesis
      using b by (auto simp: registry_set_def getBenchmarkStatus_def list_all_iff)
  next
    fix msg
    assume "runBenchmark env cb models scenarios runId registry = (st, Some msg)"
    then show ?thesis
      using b l by (auto simp: getBenchmarkStatus_def list_all_iff)
  qed
qed

theorem C4_terminal_progress_witness:
  "getBenchmarkStatus (fst (runBenchmark failing_store_env True 1 (Some 1) ''run-1'' Map.empty))
     ''run-1'' =
   Some \<lparr>reg_id = ''run-1'', reg_status = Failed, reg_progress = 0,
         reg_error = Some ''database or disk is full''\<rparr>"
proof -
  have v: "last (published
             (fst (runBenchmark failing_store_env True 1 (Some 1) ''run-1'' Map.empty))) =
           \<lparr>reg_id = ''run-1'', reg_status = Failed, reg_progress = 0,
            reg_error = Some ''database or disk is full''\<rparr>"
    by (simp add: coordinator_defs)
  from C4_terminal_progress[of failing_store_env True 1 "Some 1" "''run-1''" Map.empty]
  have "getBenchmarkStatus
          (fst (runBenchmark failing_store_env True 1 (Some 1) ''run-1'' Map.empty)) ''run-1'' =
        Some (last (published
          (fst (runBenchmark failing_store_env True 1 (Some 1) ''run-1'' Map.empty))))"
    by blast
  then show ?thesis unfolding v .
qed

section \<open>Claims about the store\<close>

text \<open>
  The stocked database is what saving the run leaves in a database that holds the model;
  without the run and the model the insert of a result throws.
\<close>

lemma stocked_sqlite_store_saved:
  "saveBenchmarkRun (sqlite_store\<lparr>db_models := [sample_model]\<rparr>) sample_benchmark_run =
     Inr stocked_sqlite_store"
  by (simp add: saveBenchmarkRun_def stocked_sqlite_store_def sqlite_store_def)

lemma result_without_run_rejected:
  "saveBenchmarkResult sqlite_store 0 clean_result = Inl ''FOREIGN KEY constraint failed''"
  by (simp add: saveBenchmarkResult_def sqlite_store_def clean_result_def Let_def)

text \<open>
  Claim C8. A result saved and read back has error_rate and timeout_rate populated, also
  when their value is 0.

  The SQLite branch of saveBenchmarkResult binds both columns as \<open>result.field || null\<close>,
  so the rates 0 of a scenario without failures are stored as NULL and read back as null;
  the JSON branch keeps them. The store holds the model and the run of the result, so
  the insert is accepted.
\<close>

theorem C8_sqlite_drops_zero_rates:
  "error_rate (r_aggregated clean_result) = Some 0 \<and>
   timeout_rate (r_aggregated clean_result) = Some 0 \<and>
   map_sum id (\<lambda>st. map (\<lambda>r. (s_id r, s_error_rate r, s_timeout_rate r))
                         (getBenchmarkResults st ''run-1''))
     (saveBenchmarkResult stocked_sqlite_store 0 clean_result) =
     Inr [(''result-1'', None, None)] \<and>
   map_sum id (\<lambda>st. map (\<lambda>r. (s_id r, s_error_rate r, s_timeout_rate r))
                         (getBenchmarkResults st ''run-1''))
     (saveBenchmarkResult stocked_json_store 0 clean_result) =
     Inr [(''result-1'', Some 0, Some 0)]"
  by (simp add: clean_result_def clean_config_def clean_results_def stocked_sqlite_store_def
        stocked_json_store_def sqlite_store_def json_store_def sample_model_def
        sample_benchmark_run_def saveBenchmarkResult_def getBenchmarkResults_def aggregate_def
        js_div_def or_null_def Let_def)

text \<open>
  Claim C9. Exporting a run whose id is not in the store fails with NotFound, for the JSON
  and for the CSV export.

  Neither route looks the run up before it answers: for an id that no run has, the JSON
  route answers 200 with a null run and no results, and the CSV route answers 200 with an
  empty body, in both stores.
\<close>

theorem C9_export_of_missing_run_answers_200:
  "status (export_json_route sqlite_store 0 ''no-such-run'') = 200 \<and>
   ex_run (body (export_json_route sqlite_store 0 ''no-such-run'')) = None \<and>
   ex_results (body (export_json_route sqlite_store 0 ''no-such-run'')) = [] \<and>
   status (export_json_route json_store 0 ''no-such-run'') = 200 \<and>
   ex_run (body (export_json_route json_store 0 ''no-such-run'')) = None \<and>
   export_csv_route (\<lambda>r. []) (\<lambda>r k. Absent) sqlite_store ''no-such-run'' = Response 200 [] \<and>
   export_csv_route (\<lambda>r. []) (\<lambda>r k. Absent) json_store ''no-such-run'' = Response 200 []"
  by (simp add: export_json_route_def export_csv_route_def exportToJSON_def exportToCSV_def
        getBenchmarkRun_def getBenchmarkResults_def sqlite_store_def json_store_def)

end
